theory Spec2Isabelle
  imports Complex_Main
begin

section \<open>The embeddings generator (src/utils/embeddings.py)\<close>

text \<open>
  The script reads a text file, asks a sentence-embedding model for the embedding of the
  text and writes it as JSON. Its two functions, \<open>get_embedding\<close> and \<open>main\<close>, and the
  module-level import guard are embedded below as functions over an explicit state: the
  files of the machine and the trace of what the process has done so far (what it
  printed, which files it opened, which library calls it made). Exceptions are values
  of a sum type, \<open>Inl\<close> carrying the exception.

  A Python \<open>str\<close> used as a path, a model name, a message or JSON text is a \<open>string\<close>,
  each \<open>char\<close> standing for the code point of the same number (so code points below
  256); the text read from the input file, which may hold any Unicode character, is a
  list of code points; the content of a file is a \<open>string\<close> of bytes.
\<close>

type_synonym path = string
type_synonym bytestring = string
type_synonym unicode = "nat list"

subsection \<open>Exceptions\<close>

text \<open>
  An instance of \<open>Exception\<close> or of one of its subclasses: the name of its class and
  what \<open>str(e)\<close> gives. Both handlers of the script are \<open>except Exception\<close>, and
  \<open>str(e)\<close> is all they look at.
\<close>

datatype exn = Exn (exn_class: string) (exn_str: string)

definition hexdigit :: "nat \<Rightarrow> char" where
  "hexdigit d = ''0123456789abcdef'' ! (d mod 16)"

definition hex2 :: "nat \<Rightarrow> string" where
  "hex2 n = [hexdigit (n div 16), hexdigit (n mod 16)]"

function show_nat :: "nat \<Rightarrow> string" where
  "show_nat n = (if n < 10 then [hexdigit n] else show_nat (n div 10) @ [hexdigit (n mod 10)])"
  by pat_completeness auto
termination
  by (relation "measure id") auto

declare show_nat.simps [simp del]

text \<open>
  \<open>repr\<close> of a \<open>str\<close>, which is how an \<open>OSError\<close> shows its file name: double quotes
  when the string has a single quote and no double quote, single quotes otherwise; the
  quote and the backslash escaped, tab, newline and carriage return as \<open>\t\<close>, \<open>\n\<close>,
  \<open>\r\<close>, any other non-printable character as \<open>\xNN\<close>.
\<close>

definition printable :: "char \<Rightarrow> bool" where
  "printable c = (let n = (of_char c :: nat) in (32 \<le> n \<and> n < 127) \<or> (161 \<le> n \<and> n \<noteq> 173))"

definition repr_char :: "char \<Rightarrow> char \<Rightarrow> string" where
  "repr_char q c =
     (if c = q \<or> c = CHR 0x5C then [CHR 0x5C, c]
      else if c = CHR 0x09 then [CHR 0x5C, CHR ''t'']
      else if c = CHR 0x0A then [CHR 0x5C, CHR ''n'']
      else if c = CHR 0x0D then [CHR 0x5C, CHR ''r'']
      else if \<not> printable c then [CHR 0x5C, CHR ''x''] @ hex2 (of_char c)
      else [c])"

definition py_repr :: "string \<Rightarrow> string" where
  "py_repr s =
     (let q = (if CHR 0x27 \<in> set s \<and> CHR 0x22 \<notin> set s then CHR 0x22 else CHR 0x27)
      in [q] @ concat (map (repr_char q) s) @ [q])"

definition FileNotFoundError :: "path \<Rightarrow> exn" where
  "FileNotFoundError p =
     Exn ''FileNotFoundError'' (''[Errno 2] No such file or directory: '' @ py_repr p)"

definition PermissionError :: "path \<Rightarrow> exn" where
  "PermissionError p = Exn ''PermissionError'' (''[Errno 13] Permission denied: '' @ py_repr p)"

definition IsADirectoryError :: "path \<Rightarrow> exn" where
  "IsADirectoryError p = Exn ''IsADirectoryError'' (''[Errno 21] Is a directory: '' @ py_repr p)"

text \<open>
  The \<open>UnicodeDecodeError\<close> of the UTF-8 codec for the bytes \<open>bs\<close>, the offending
  range \<open>start..<stop\<close> and the reason.
\<close>

definition UnicodeDecodeError :: "bytestring \<Rightarrow> nat \<Rightarrow> nat \<Rightarrow> string \<Rightarrow> exn" where
  "UnicodeDecodeError bs start stop reason =
     Exn ''UnicodeDecodeError''
       ([CHR 0x27] @ ''utf-8'' @ [CHR 0x27] @ '' codec can't decode '' @
        (if stop = start + 1
         then ''byte 0x'' @ hex2 (of_char (bs ! start)) @ '' in position '' @ show_nat start
         else ''bytes in position '' @ show_nat start @ ''-'' @ show_nat (stop - 1)) @
        '': '' @ reason)"

definition TypeError_not_serializable :: "string \<Rightarrow> exn" where
  "TypeError_not_serializable cls =
     Exn ''TypeError'' (''Object of type '' @ cls @ '' is not JSON serializable'')"

subsection \<open>Python values\<close>

text \<open>
  The data of a numeric array as \<open>tolist\<close> sees it: a single item (an array of
  dimension 0) or a sequence of sub-arrays along the first axis. An embedding vector
  of components \<open>xs\<close> is \<open>Axis (map Item xs)\<close>. The type \<open>'f\<close> is that of Python
  floats.
\<close>

datatype 'f nd = Item 'f | Axis "'f nd list"

text \<open>
  A \<open>torch.Tensor\<close>, described by what \<open>.cpu().detach().numpy()\<close> does on it: it
  gives an array of the same data, or it raises.
\<close>

datatype 'f tensor = TensorData "'f nd" | TensorNoNumpy exn

text \<open>
  The objects that \<open>model.encode\<close> may hand back and that \<open>json.dump\<close> may be given.
  \<open>PyObject cls\<close> is an object of any other class, named \<open>cls\<close>.
\<close>

datatype 'f pyval =
    PyFloat 'f
  | PyStr string
  | PyList "'f pyval list"
  | PyTuple "'f pyval list"
  | PyDict "(string \<times> 'f pyval) list"
  | Ndarray "'f nd"
  | Tensor "'f tensor"
  | PyObject string

fun tolist :: "'f nd \<Rightarrow> 'f pyval" where
  "tolist (Item x) = PyFloat x"
| "tolist (Axis xs) = PyList (map tolist xs)"

fun tensor_numpy :: "'f tensor \<Rightarrow> exn + 'f pyval" where
  "tensor_numpy (TensorData a) = Inr (Ndarray a)"
| "tensor_numpy (TensorNoNumpy e) = Inl e"

definition vector :: "'f list \<Rightarrow> 'f nd" where
  "vector xs = Axis (map Item xs)"

definition float_list :: "'f list \<Rightarrow> 'f pyval" where
  "float_list xs = PyList (map PyFloat xs)"

fun is_float :: "'f pyval \<Rightarrow> bool" where
  "is_float (PyFloat x) = True"
| "is_float _ = False"

fun is_float_list :: "'f pyval \<Rightarrow> bool" where
  "is_float_list (PyList vs) = list_all is_float vs"
| "is_float_list _ = False"

subsection \<open>json.dump\<close>

text \<open>
  \<open>json.dump\<close> with its default settings: strings are escaped to ASCII, the separators
  are \<open>, \<close> and \<open>: \<close>, lists and tuples are arrays, an object of any other class
  raises \<open>TypeError\<close>. The encoder yields the text piece by piece and each piece is
  written as it comes, so \<open>iterencode\<close> returns the text produced so far together with
  the exception, if one stopped it. \<open>fs\<close> is \<open>float.__repr__\<close>.
\<close>

definition json_escape_char :: "char \<Rightarrow> string" where
  "json_escape_char c =
     (if c = CHR 0x22 then [CHR 0x5C, CHR 0x22]
      else if c = CHR 0x5C then [CHR 0x5C, CHR 0x5C]
      else if c = CHR 0x0A then [CHR 0x5C, CHR ''n'']
      else if c = CHR 0x0D then [CHR 0x5C, CHR ''r'']
      else if c = CHR 0x09 then [CHR 0x5C, CHR ''t'']
      else if c = CHR 0x08 then [CHR 0x5C, CHR ''b'']
      else if c = CHR 0x0C then [CHR 0x5C, CHR ''f'']
      else if 32 \<le> (of_char c :: nat) \<and> (of_char c :: nat) \<le> 126 then [c]
      else [CHR 0x5C, CHR ''u'', CHR ''0'', CHR ''0''] @ hex2 (of_char c))"

definition encode_basestring_ascii :: "string \<Rightarrow> string" where
  "encode_basestring_ascii s = [CHR 0x22] @ concat (map json_escape_char s) @ [CHR 0x22]"

fun iterencode :: "('f \<Rightarrow> string) \<Rightarrow> 'f pyval \<Rightarrow> string \<times> exn option"
and iterencode_list :: "('f \<Rightarrow> string) \<Rightarrow> 'f pyval list \<Rightarrow> string \<times> exn option"
and iterencode_dict :: "('f \<Rightarrow> string) \<Rightarrow> (string \<times> 'f pyval) list \<Rightarrow> string \<times> exn option"
where
  "iterencode fs (PyFloat x) = (fs x, None)"
| "iterencode fs (PyStr s) = (encode_basestring_ascii s, None)"
| "iterencode fs (PyList vs) =
     (if vs = [] then (''[]'', None)
      else case iterencode_list fs vs of
             (s, None) \<Rightarrow> (''['' @ s @ '']'', None)
           | (s, Some e) \<Rightarrow> (''['' @ s, Some e))"
| "iterencode fs (PyTuple vs) =
     (if vs = [] then (''[]'', None)
      else case iterencode_list fs vs of
             (s, None) \<Rightarrow> (''['' @ s @ '']'', None)
           | (s, Some e) \<Rightarrow> (''['' @ s, Some e))"
| "iterencode fs (PyDict kvs) =
     (if kvs = [] then (''{}'', None)
      else case iterencode_dict fs kvs of
             (s, None) \<Rightarrow> (''{'' @ s @ ''}'', None)
           | (s, Some e) \<Rightarrow> (''{'' @ s, Some e))"
| "iterencode fs (Ndarray a) = ('''', Some (TypeError_not_serializable ''ndarray''))"
| "iterencode fs (Tensor t) = ('''', Some (TypeError_not_serializable ''Tensor''))"
| "iterencode fs (PyObject cls) = ('''', Some (TypeError_not_serializable cls))"
| "iterencode_list fs [] = ('''', None)"
| "iterencode_list fs (v # vs) =
     (case iterencode fs v of
        (s, Some e) \<Rightarrow> (s, Some e)
      | (s, None) \<Rightarrow>
          (if vs = [] then (s, None)
           else case iterencode_list fs vs of (t, r) \<Rightarrow> (s @ '', '' @ t, r)))"
| "iterencode_dict fs [] = ('''', None)"
| "iterencode_dict fs (kv # kvs) =
     (case iterencode fs (snd kv) of
        (s, Some e) \<Rightarrow> (encode_basestring_ascii (fst kv) @ '': '' @ s, Some e)
      | (s, None) \<Rightarrow>
          (if kvs = [] then (encode_basestring_ascii (fst kv) @ '': '' @ s, None)
           else case iterencode_dict fs kvs of
                  (t, r) \<Rightarrow> (encode_basestring_ascii (fst kv) @ '': '' @ s @ '', '' @ t, r)))"

text \<open>\<open>json.dumps\<close>: the whole text, or the exception.\<close>

definition json_dumps :: "('f \<Rightarrow> string) \<Rightarrow> 'f pyval \<Rightarrow> exn + string" where
  "json_dumps fs v = (case iterencode fs v of (s, None) \<Rightarrow> Inr s | (s, Some e) \<Rightarrow> Inl e)"

fun join :: "string \<Rightarrow> string list \<Rightarrow> string" where
  "join sep [] = ''''"
| "join sep [x] = x"
| "join sep (x # y # ys) = x @ sep @ join sep (y # ys)"

subsection \<open>Reading and writing text files\<close>

text \<open>
  The strict UTF-8 decoder, as \<open>f.read()\<close> runs it over the whole content of a file
  opened with \<open>encoding="utf-8"\<close>. \<open>utf8_sequence\<close> decodes the character at the head
  of the bytes that are left and gives it with the bytes after it, or says what is
  wrong: a byte that cannot start a character, a byte that cannot continue one (with
  the number of bytes of the character that were right), or the end of the data in the
  middle of a character. Over-long forms, surrogates and code points above 0x10FFFF are
  refused.
\<close>

datatype utf8_error = Invalid_start | Invalid_continuation nat | Unexpected_end

definition continuation :: "char \<Rightarrow> bool" where
  "continuation b = (128 \<le> (of_char b :: nat) \<and> (of_char b :: nat) < 192)"

definition prepend :: "nat \<Rightarrow> exn + unicode \<Rightarrow> exn + unicode" where
  "prepend c r = (case r of Inl e \<Rightarrow> Inl e | Inr cs \<Rightarrow> Inr (c # cs))"

fun utf8_sequence :: "bytestring \<Rightarrow> utf8_error + nat \<times> bytestring" where
  "utf8_sequence [] = Inl Unexpected_end"
| "utf8_sequence (b0 # rest) =
     (let c = (of_char b0 :: nat) in
      if c < 0x80 then Inr (c, rest)
      else if c < 0xC2 then Inl Invalid_start
      else if c < 0xE0 then
        (case rest of
           [] \<Rightarrow> Inl Unexpected_end
         | b1 # r1 \<Rightarrow>
             if \<not> continuation b1 then Inl (Invalid_continuation 1)
             else Inr ((c - 0xC0) * 64 + (of_char b1 - 0x80), r1))
      else if c < 0xF0 then
        (case rest of
           [] \<Rightarrow> Inl Unexpected_end
         | b1 # r1 \<Rightarrow>
             if \<not> continuation b1 \<or> (c = 0xE0 \<and> (of_char b1 :: nat) < 0xA0)
                \<or> (c = 0xED \<and> 0xA0 \<le> (of_char b1 :: nat))
             then Inl (Invalid_continuation 1)
             else
               (case r1 of
                  [] \<Rightarrow> Inl Unexpected_end
                | b2 # r2 \<Rightarrow>
                    if \<not> continuation b2 then Inl (Invalid_continuation 2)
                    else Inr ((c - 0xE0) * 4096 + (of_char b1 - 0x80) * 64
                              + (of_char b2 - 0x80), r2)))
      else if c < 0xF5 then
        (case rest of
           [] \<Rightarrow> Inl Unexpected_end
         | b1 # r1 \<Rightarrow>
             if \<not> continuation b1 \<or> (c = 0xF0 \<and> (of_char b1 :: nat) < 0x90)
                \<or> (c = 0xF4 \<and> 0x90 \<le> (of_char b1 :: nat))
             then Inl (Invalid_continuation 1)
             else
               (case r1 of
                  [] \<Rightarrow> Inl Unexpected_end
                | b2 # r2 \<Rightarrow>
                    if \<not> continuation b2 then Inl (Invalid_continuation 2)
                    else
                      (case r2 of
                         [] \<Rightarrow> Inl Unexpected_end
                       | b3 # r3 \<Rightarrow>
                           if \<not> continuation b3 then Inl (Invalid_continuation 3)
                           else Inr ((c - 0xF0) * 262144 + (of_char b1 - 0x80) * 4096
                                     + (of_char b2 - 0x80) * 64 + (of_char b3 - 0x80), r3))))
      else Inl Invalid_start)"

text \<open>
  The decoder over the whole content \<open>bs\<close>, standing at the byte of index \<open>pos\<close> with
  the bytes \<open>r\<close> left; the error names the range of bytes it stopped at.
\<close>

function utf8_decode_at :: "bytestring \<Rightarrow> nat \<Rightarrow> bytestring \<Rightarrow> exn + unicode" where
  "utf8_decode_at bs pos r =
     (if r = [] then Inr []
      else case utf8_sequence r of
             Inl Invalid_start \<Rightarrow>
               Inl (UnicodeDecodeError bs pos (pos + 1) ''invalid start byte'')
           | Inl (Invalid_continuation k) \<Rightarrow>
               Inl (UnicodeDecodeError bs pos (pos + k) ''invalid continuation byte'')
           | Inl Unexpected_end \<Rightarrow>
               Inl (UnicodeDecodeError bs pos (length bs) ''unexpected end of data'')
           | Inr (c, rest) \<Rightarrow>
               prepend c (utf8_decode_at bs (pos + (length r - length rest)) rest))"
  by pat_completeness auto
termination
  by (relation "measure (\<lambda>(bs, pos, r). length r)")
     (auto simp: neq_Nil_conv Let_def split: if_splits list.splits)

declare utf8_decode_at.simps [simp del]

definition utf8_decode :: "bytestring \<Rightarrow> exn + unicode" where
  "utf8_decode bs = utf8_decode_at bs 0 bs"

text \<open>
  Text mode with the default \<open>newline=None\<close>: on reading, \<open>\r\n\<close> and a lone \<open>\r\<close>
  both become \<open>\n\<close>.
\<close>

fun universal_newlines :: "unicode \<Rightarrow> unicode" where
  "universal_newlines [] = []"
| "universal_newlines [c] = [if c = 13 then 10 else c]"
| "universal_newlines (c # d # r) =
     (if c = 13 \<and> d = 10 then 10 # universal_newlines r
      else if c = 13 then 10 # universal_newlines (d # r)
      else c # universal_newlines (d # r))"

text \<open>
  Writing text to a file opened with \<open>encoding="utf-8"\<close>: a code point below 128 is one
  byte, one from 128 to 255 is two. (On output \<open>\n\<close> is written as the line separator
  of the platform, which is \<open>\n\<close> itself on POSIX, the platform modelled here.)
\<close>

definition utf8_encode_char :: "char \<Rightarrow> bytestring" where
  "utf8_encode_char c =
     (let n = (of_char c :: nat) in
      if n < 128 then [c] else [char_of (192 + n div 64), char_of (128 + n mod 64)])"

definition utf8_encode :: "string \<Rightarrow> bytestring" where
  "utf8_encode s = concat (map utf8_encode_char s)"

subsection \<open>The machine: files, trace, installed packages, the model library\<close>

text \<open>
  What a path names: a regular file with its content and whether the process may read
  and write it, or a directory. A path that names nothing is absent from the map.
\<close>

datatype node = File (contents: bytestring) (readable: bool) (writable: bool) | Directory

text \<open>
  What the process does, in order: a line printed on standard output or on the error
  stream, the help or the usage error printed by the argument parser, a call of
  \<open>open\<close> (path and mode), the two calls into the model library.
\<close>

datatype event =
    Stdout string
  | Stderr string
  | Parser_help
  | Parser_error string
  | Open_file path string
  | Load_model string
  | Encode unicode bool

record state =
  nodes :: "path \<Rightarrow> node option"
  trace :: "event list"

text \<open>
  Standard output encodes each line that is printed and, its error handler being
  strict, raises \<open>UnicodeEncodeError\<close> for a line it cannot encode, before anything of
  the line is written. With UTF-8 every line of this model is taken; with ASCII (as
  under \<open>PYTHONIOENCODING=ascii\<close>) a line with a character of 128 or above is refused,
  the message naming the first run of such characters. The error stream replaces what
  it cannot encode (\<open>backslashreplace\<close>) and takes every line.
\<close>

datatype codec = Utf8 | Ascii

definition ascii_encode_error :: "string \<Rightarrow> exn option" where
  "ascii_encode_error l =
     (let pre = takeWhile (\<lambda>c. (of_char c :: nat) < 128) l;
          bad = takeWhile (\<lambda>c. 128 \<le> (of_char c :: nat))
                  (dropWhile (\<lambda>c. (of_char c :: nat) < 128) l)
      in if bad = [] then None
         else Some (Exn ''UnicodeEncodeError''
                ([CHR 0x27] @ ''ascii'' @ [CHR 0x27] @ '' codec can't encode '' @
                 (if length bad = 1
                  then ''character '' @ [CHR 0x27, CHR 0x5C, CHR ''x''] @ hex2 (of_char (hd bad))
                       @ [CHR 0x27] @ '' in position '' @ show_nat (length pre)
                  else ''characters in position '' @ show_nat (length pre) @ ''-''
                       @ show_nat (length pre + length bad - 1)) @
                 '': ordinal not in range(128)'')))"

fun stdout_error :: "codec \<Rightarrow> string \<Rightarrow> exn option" where
  "stdout_error Utf8 l = None"
| "stdout_error Ascii l = ascii_encode_error l"

text \<open>
  What the script finds around it: whether each of the three packages imports,
  \<open>SentenceTransformer(model_name)\<close>, \<open>model.encode(text, normalize_embeddings=b)\<close> (both
  may raise; both are functions of their arguments), \<open>float.__repr__\<close>, what the
  operating system answers when a file is to be created at a path that names nothing
  (\<open>None\<close>: it is created), and the encoding of standard output.
\<close>

record ('m, 'f) env =
  has_sentence_transformers :: bool
  has_torch :: bool
  has_numpy :: bool
  SentenceTransformer :: "string \<Rightarrow> exn + 'm"
  encode :: "'m \<Rightarrow> unicode \<Rightarrow> bool \<Rightarrow> exn + 'f pyval"
  floatstr :: "'f \<Rightarrow> string"
  create_error :: "path \<Rightarrow> exn option"
  stdout_encoding :: codec

definition log :: "event \<Rightarrow> state \<Rightarrow> state" where
  "log ev s = s\<lparr>trace := trace s @ [ev]\<rparr>"

text \<open>\<open>open(p, "r", encoding="utf-8")\<close> followed by \<open>f.read()\<close>.\<close>

definition open_read :: "state \<Rightarrow> path \<Rightarrow> exn + bytestring" where
  "open_read s p =
     (case nodes s p of
        None \<Rightarrow> Inl (FileNotFoundError p)
      | Some Directory \<Rightarrow> Inl (IsADirectoryError p)
      | Some (File c r w) \<Rightarrow> if r then Inr c else Inl (PermissionError p))"

definition read_text :: "state \<Rightarrow> path \<Rightarrow> exn + unicode" where
  "read_text s p =
     (case open_read s p of
        Inl e \<Rightarrow> Inl e
      | Inr bs \<Rightarrow>
          (case utf8_decode bs of
             Inl e \<Rightarrow> Inl e
           | Inr cs \<Rightarrow> Inr (universal_newlines cs)))"

text \<open>
  \<open>open(p, "w", encoding="utf-8")\<close>: an existing file is emptied, a missing one is
  created empty.
\<close>

definition open_write :: "('m, 'f) env \<Rightarrow> path \<Rightarrow> state \<Rightarrow> exn + state" where
  "open_write env p s =
     (case nodes s p of
        None \<Rightarrow>
          (case create_error env p of
             Some e \<Rightarrow> Inl e
           | None \<Rightarrow> Inr (s\<lparr>nodes := (nodes s)(p \<mapsto> File [] True True)\<rparr>))
      | Some Directory \<Rightarrow> Inl (IsADirectoryError p)
      | Some (File c r w) \<Rightarrow>
          if w then Inr (s\<lparr>nodes := (nodes s)(p \<mapsto> File [] r w)\<rparr>)
          else Inl (PermissionError p))"

text \<open>What has been written to the open file \<open>p\<close> when it is closed.\<close>

definition write_text :: "path \<Rightarrow> string \<Rightarrow> state \<Rightarrow> state" where
  "write_text p txt s =
     (case nodes s p of
        Some (File c r w) \<Rightarrow> s\<lparr>nodes := (nodes s)(p \<mapsto> File (c @ utf8_encode txt) r w)\<rparr>
      | _ \<Rightarrow> s)"

subsection \<open>get_embedding\<close>

text \<open>
  The body of the \<open>try\<close> of \<open>get_embedding\<close>: load the model, encode the text with
  \<open>normalize_embeddings=True\<close>, then (\<open>convert_to_list\<close>, the two \<open>isinstance\<close> tests)
  turn a tensor into an array and an array into a list, and return what is left.
\<close>

definition convert_to_list :: "'f pyval \<Rightarrow> exn + 'f pyval" where
  "convert_to_list embedding =
     (case (case embedding of Tensor t \<Rightarrow> tensor_numpy t | _ \<Rightarrow> Inr embedding) of
        Inl e \<Rightarrow> Inl e
      | Inr embedding' \<Rightarrow> Inr (case embedding' of Ndarray a \<Rightarrow> tolist a | _ \<Rightarrow> embedding'))"

definition get_embedding_body ::
  "('m, 'f) env \<Rightarrow> unicode \<Rightarrow> string \<Rightarrow> state \<Rightarrow> (exn + 'f pyval) \<times> state" where
  "get_embedding_body env txt model_name s =
     (let s1 = log (Load_model model_name) s in
      case SentenceTransformer env model_name of
        Inl e \<Rightarrow> (Inl e, s1)
      | Inr m \<Rightarrow>
          (let s2 = log (Encode txt True) s1 in
           case encode env m txt True of
             Inl e \<Rightarrow> (Inl e, s2)
           | Inr embedding \<Rightarrow> (convert_to_list embedding, s2)))"

text \<open>The handler: print the message on the error stream and raise the exception again.\<close>

definition get_embedding ::
  "('m, 'f) env \<Rightarrow> unicode \<Rightarrow> string \<Rightarrow> state \<Rightarrow> (exn + 'f pyval) \<times> state" where
  "get_embedding env txt model_name s =
     (case get_embedding_body env txt model_name s of
        (Inl e, s') \<Rightarrow> (Inl e, log (Stderr (''Error generating embedding: '' @ exn_str e)) s')
      | (Inr v, s') \<Rightarrow> (Inr v, s'))"

subsection \<open>The argument parser\<close>

text \<open>
  The command line as the parser of \<open>main\<close> sees it once \<open>argparse\<close> has matched each
  argument against the options \<open>-h/--help\<close>, \<open>--input\<close>, \<open>--output\<close> and \<open>--model\<close>:
  an occurrence of one of the three value options with its value (however it was
  spelled: \<open>--input p\<close>, \<open>--input=p\<close> or an abbreviation), the help flag, an option
  that the parser rejects when it comes to it (say \<open>--input\<close> with no value after it)
  with the message of the rejection, or an argument that matches nothing.
\<close>

datatype cli_item =
    Input_option string
  | Output_option string
  | Model_option string
  | Help_option
  | Rejected_option string
  | Unrecognized string

text \<open>The namespace: \<open>args.input\<close>, \<open>args.output\<close>, \<open>args.model\<close>.\<close>

record arguments =
  arg_input :: path
  arg_output :: path
  arg_model :: string

text \<open>
  The parser ends the process itself (\<open>SystemExit\<close>): with code 0 after printing the
  help, with code 2 after printing a usage error.
\<close>

datatype parse_result = Namespace arguments | SystemExit int event

text \<open>
  The options are taken from left to right, a later value replacing an earlier one;
  help and a rejected option end the parse where they stand. Arguments that match
  nothing are collected. At the end a missing required option is reported first, then
  the collected arguments.
\<close>

fun parse_items ::
  "string option \<Rightarrow> string option \<Rightarrow> string \<Rightarrow> string list \<Rightarrow> cli_item list \<Rightarrow> parse_result" where
  "parse_items inp outp mdl extras [] =
     (case (inp, outp) of
        (Some i, Some out) \<Rightarrow>
          if extras = []
          then Namespace \<lparr>arg_input = i, arg_output = out, arg_model = mdl\<rparr>
          else SystemExit 2 (Parser_error (''unrecognized arguments: '' @ join '' '' extras))
      | _ \<Rightarrow>
          SystemExit 2
            (Parser_error
               (''the following arguments are required: '' @
                join '', '' ((if inp = None then [''--input''] else []) @
                             (if outp = None then [''--output''] else [])))))"
| "parse_items inp outp mdl extras (Input_option v # rest) =
     parse_items (Some v) outp mdl extras rest"
| "parse_items inp outp mdl extras (Output_option v # rest) =
     parse_items inp (Some v) mdl extras rest"
| "parse_items inp outp mdl extras (Model_option v # rest) =
     parse_items inp outp v extras rest"
| "parse_items inp outp mdl extras (Help_option # rest) = SystemExit 0 Parser_help"
| "parse_items inp outp mdl extras (Rejected_option msg # rest) =
     SystemExit 2 (Parser_error msg)"
| "parse_items inp outp mdl extras (Unrecognized a # rest) =
     parse_items inp outp mdl (extras @ [a]) rest"

definition parse_args :: "cli_item list \<Rightarrow> parse_result" where
  "parse_args argv = parse_items None None ''jinaai/jina-embeddings-v3'' [] argv"

subsection \<open>main and the script\<close>

text \<open>
  The body of the \<open>try\<close> of \<open>main\<close>: read the input, compute the embedding, open the
  output (the file is emptied or created by the \<open>open\<close>), dump the JSON into it, print
  the confirmation, return 0. When \<open>json.dump\<close> raises, the file is closed with what
  had been written. The \<open>print\<close> of the confirmation is inside the \<open>try\<close> too: when
  standard output refuses the line, the exception goes to the handler, the file being
  written already.
\<close>

definition main_body :: "('m, 'f) env \<Rightarrow> arguments \<Rightarrow> state \<Rightarrow> (exn + int) \<times> state" where
  "main_body env args s =
     (let s1 = log (Open_file (arg_input args) ''r'') s in
      case read_text s1 (arg_input args) of
        Inl e \<Rightarrow> (Inl e, s1)
      | Inr txt \<Rightarrow>
          (case get_embedding env txt (arg_model args) s1 of
             (Inl e, s2) \<Rightarrow> (Inl e, s2)
           | (Inr embedding, s2) \<Rightarrow>
               (let s3 = log (Open_file (arg_output args) ''w'') s2 in
                case open_write env (arg_output args) s3 of
                  Inl e \<Rightarrow> (Inl e, s3)
                | Inr s4 \<Rightarrow>
                    (case iterencode (floatstr env) (PyDict [(''embedding'', embedding)]) of
                       (written, Some e) \<Rightarrow> (Inl e, write_text (arg_output args) written s4)
                     | (written, None) \<Rightarrow>
                         (case stdout_error (stdout_encoding env)
                                 (''Embedding saved to '' @ arg_output args) of
                            Some e \<Rightarrow> (Inl e, write_text (arg_output args) written s4)
                          | None \<Rightarrow>
                              (Inr 0,
                               log (Stdout (''Embedding saved to '' @ arg_output args))
                                 (write_text (arg_output args) written s4)))))))"

text \<open>The handler of \<open>main\<close>: print the message on the error stream and return 1.\<close>

definition main :: "('m, 'f) env \<Rightarrow> arguments \<Rightarrow> state \<Rightarrow> int \<times> state" where
  "main env args s =
     (case main_body env args s of
        (Inl e, s') \<Rightarrow> (1, log (Stderr (''Error: '' @ exn_str e)) s')
      | (Inr code, s') \<Rightarrow> (code, s'))"

text \<open>
  The script run as a process: the import guard first (two lines on standard output
  and exit code 1 when a package is missing; both lines are ASCII, which standard
  output takes in either encoding), then the parser, then \<open>sys.exit(main())\<close>. The
  result is the exit code and the state left behind.
\<close>

definition script :: "('m, 'f) env \<Rightarrow> cli_item list \<Rightarrow> state \<Rightarrow> int \<times> state" where
  "script env argv s =
     (if \<not> (has_sentence_transformers env \<and> has_torch env \<and> has_numpy env)
      then (1, log (Stdout ''pip install sentence-transformers torch numpy'')
                 (log (Stdout ''Required packages not found. Please install them with:'') s))
      else case parse_args argv of
             SystemExit code ev \<Rightarrow> (code, log ev s)
           | Namespace args \<Rightarrow> main env args s)"

subsection \<open>Notions used in the statements\<close>

fun is_input_option :: "cli_item \<Rightarrow> bool" where
  "is_input_option (Input_option v) = True"
| "is_input_option _ = False"

fun is_output_option :: "cli_item \<Rightarrow> bool" where
  "is_output_option (Output_option v) = True"
| "is_output_option _ = False"

text \<open>
  What the model library answers for a text, and what \<open>get_embedding\<close> makes of it, the
  trace left aside.
\<close>

definition model_output :: "('m, 'f) env \<Rightarrow> unicode \<Rightarrow> string \<Rightarrow> exn + 'f pyval" where
  "model_output env txt model_name =
     (case SentenceTransformer env model_name of
        Inl e \<Rightarrow> Inl e
      | Inr m \<Rightarrow> encode env m txt True)"

definition computed :: "('m, 'f) env \<Rightarrow> unicode \<Rightarrow> string \<Rightarrow> exn + 'f pyval" where
  "computed env txt model_name =
     (case model_output env txt model_name of
        Inl e \<Rightarrow> Inl e
      | Inr embedding \<Rightarrow> convert_to_list embedding)"

text \<open>The library calls that \<open>get_embedding\<close> makes for a text, in order.\<close>

definition library_calls :: "('m, 'f) env \<Rightarrow> unicode \<Rightarrow> string \<Rightarrow> event list" where
  "library_calls env txt model_name =
     (case SentenceTransformer env model_name of
        Inl e \<Rightarrow> [Load_model model_name]
      | Inr m \<Rightarrow> [Load_model model_name, Encode txt True])"

text \<open>
  The Euclidean norm of a vector of floats, \<open>val\<close> giving the real number a float
  stands for, and what it is for it to be 1 within the tolerance \<open>eps\<close>.
\<close>

definition l2_norm :: "('f \<Rightarrow> real) \<Rightarrow> 'f list \<Rightarrow> real" where
  "l2_norm val xs = sqrt (sum_list (map (\<lambda>x. val x * val x) xs))"

definition unit_length :: "('f \<Rightarrow> real) \<Rightarrow> real \<Rightarrow> 'f list \<Rightarrow> bool" where
  "unit_length val eps xs = (\<bar>l2_norm val xs - 1\<bar> \<le> eps)"


text \<open>The lines printed on standard output and on the error stream, in order.\<close>

definition stdout_lines :: "event list \<Rightarrow> string list" where
  "stdout_lines tr = concat (map (\<lambda>ev. case ev of Stdout l \<Rightarrow> [l] | _ \<Rightarrow> []) tr)"

definition stderr_lines :: "event list \<Rightarrow> string list" where
  "stderr_lines tr = concat (map (\<lambda>ev. case ev of Stderr l \<Rightarrow> [l] | _ \<Rightarrow> []) tr)"


text \<open>What printing the confirmation raises, if standard output refuses the line.\<close>

definition confirmation_error :: "('m, 'f) env \<Rightarrow> arguments \<Rightarrow> exn option" where
  "confirmation_error env args =
     stdout_error (stdout_encoding env) (''Embedding saved to '' @ arg_output args)"




subsection \<open>A sample machine\<close>

text \<open>
  A machine on which the statements are tried: the three packages are installed, any
  model loads, the embedding of any text is the array (0.6, 0.8), a file can be created
  anywhere, standard output is UTF-8; \<open>in.txt\<close> holds \<open>hi\<close> and \<open>out.json\<close> holds
  \<open>old\<close>.
\<close>

definition sample_floatstr :: "real \<Rightarrow> string" where
  "sample_floatstr x = (if x = 3 / 5 then ''0.6'' else if x = 4 / 5 then ''0.8'' else ''1.0'')"

definition sample_env :: "(unit, real) env" where
  "sample_env =
     \<lparr>has_sentence_transformers = True, has_torch = True, has_numpy = True,
      SentenceTransformer = (\<lambda>n. Inr ()),
      encode = (\<lambda>m t b. Inr (Ndarray (vector [3 / 5, 4 / 5]))),
      floatstr = sample_floatstr,
      create_error = (\<lambda>p. None),
      stdout_encoding = Utf8\<rparr>"

definition sample_state :: state where
  "sample_state =
     \<lparr>nodes = [''in.txt'' \<mapsto> File ''hi'' True True, ''out.json'' \<mapsto> File ''old'' True True],
      trace = []\<rparr>"

definition sample_args :: arguments where
  "sample_args =
     \<lparr>arg_input = ''in.txt'', arg_output = ''out.json'', arg_model = ''jinaai/jina-embeddings-v3''\<rparr>"

text \<open>The same machine without \<open>torch\<close>.\<close>

definition env_without_torch :: "(unit, real) env" where
  "env_without_torch = sample_env\<lparr>has_torch := False\<rparr>"

definition sample_argv :: "cli_item list" where
  "sample_argv = [Input_option ''in.txt'', Output_option ''out.json'']"

text \<open>The same machine on which no model loads.\<close>

definition env_load_fails :: "(unit, real) env" where
  "env_load_fails =
     sample_env\<lparr>SentenceTransformer := (\<lambda>n. Inl (Exn ''OSError'' ''no such model''))\<rparr>"


text \<open>
  A second machine state, where a read-only copy of the input sits under another name
  and something has been printed already, and a command line for it.
\<close>

definition second_state :: state where
  "second_state =
     \<lparr>nodes = [''copy.txt'' \<mapsto> File ''hi'' True False], trace = [Stdout ''earlier'']\<rparr>"

definition second_argv :: "cli_item list" where
  "second_argv =
     [Output_option ''second.json'', Input_option ''copy.txt'',
      Model_option ''jinaai/jina-embeddings-v3'']"

definition second_args :: arguments where
  "second_args =
     \<lparr>arg_input = ''copy.txt'', arg_output = ''second.json'',
      arg_model = ''jinaai/jina-embeddings-v3''\<rparr>"







section \<open>Properties\<close>

subsection \<open>How \<open>main\<close> runs\<close>

lemma read_text_log [simp]: "read_text (s\<lparr>trace := t\<rparr>) p = read_text s p"
  by (simp add: read_text_def open_read_def)

lemma open_write_trace:
  "open_write env p (s\<lparr>trace := t\<rparr>) =
     (case open_write env p s of Inl e \<Rightarrow> Inl e | Inr s' \<Rightarrow> Inr (s'\<lparr>trace := t\<rparr>))"
  by (simp add: open_write_def split: option.splits node.splits)

lemma write_text_trace:
  "write_text p w (s\<lparr>trace := t\<rparr>) = (write_text p w s)\<lparr>trace := t\<rparr>"
  by (simp add: write_text_def split: option.splits node.splits)

lemma trace_write_text [simp]: "trace (write_text p w s) = trace s"
  by (simp add: write_text_def split: option.splits node.splits)

lemma open_write_Inr:
  assumes "open_write env p s = Inr s'"
  shows "\<exists>r w. s' = s\<lparr>nodes := (nodes s)(p \<mapsto> File [] r w)\<rparr>"
  using assms by (auto simp: open_write_def split: option.splits node.splits if_splits)

lemma get_embedding_eq:
  "get_embedding env txt name s =
     (case computed env txt name of
        Inl e \<Rightarrow> (Inl e, s\<lparr>trace := trace s @ library_calls env txt name
                                 @ [Stderr (''Error generating embedding: '' @ exn_str e)]\<rparr>)
      | Inr v \<Rightarrow> (Inr v, s\<lparr>trace := trace s @ library_calls env txt name\<rparr>))"
  by (simp add: get_embedding_def get_embedding_body_def computed_def model_output_def
        library_calls_def log_def Let_def split: sum.splits)

lemma main_eq:
  "main env args s =
     (case read_text s (arg_input args) of
        Inl e \<Rightarrow>
          (1, s\<lparr>trace := trace s @ [Open_file (arg_input args) ''r'',
                                   Stderr (''Error: '' @ exn_str e)]\<rparr>)
      | Inr txt \<Rightarrow>
          (case computed env txt (arg_model args) of
             Inl e \<Rightarrow>
               (1, s\<lparr>trace := trace s @ [Open_file (arg_input args) ''r'']
                        @ library_calls env txt (arg_model args)
                        @ [Stderr (''Error generating embedding: '' @ exn_str e),
                           Stderr (''Error: '' @ exn_str e)]\<rparr>)
           | Inr v \<Rightarrow>
               (case open_write env (arg_output args) s of
                  Inl e \<Rightarrow>
                    (1, s\<lparr>trace := trace s @ [Open_file (arg_input args) ''r'']
                             @ library_calls env txt (arg_model args)
                             @ [Open_file (arg_output args) ''w'',
                                Stderr (''Error: '' @ exn_str e)]\<rparr>)
                | Inr s4 \<Rightarrow>
                    (case iterencode (floatstr env) (PyDict [(''embedding'', v)]) of
                       (written, Some e) \<Rightarrow>
                         (1, (write_text (arg_output args) written s4)
                               \<lparr>trace := trace s @ [Open_file (arg_input args) ''r'']
                                  @ library_calls env txt (arg_model args)
                                  @ [Open_file (arg_output args) ''w'',
                                     Stderr (''Error: '' @ exn_str e)]\<rparr>)
                     | (written, None) \<Rightarrow>
                         (case confirmation_error env args of
                            Some e \<Rightarrow>
                              (1, (write_text (arg_output args) written s4)
                                    \<lparr>trace := trace s @ [Open_file (arg_input args) ''r'']
                                       @ library_calls env txt (arg_model args)
                                       @ [Open_file (arg_output args) ''w'',
                                          Stderr (''Error: '' @ exn_str e)]\<rparr>)
                          | None \<Rightarrow>
                              (0, (write_text (arg_output args) written s4)
                                    \<lparr>trace := trace s @ [Open_file (arg_input args) ''r'']
                                       @ library_calls env txt (arg_model args)
                                       @ [Open_file (arg_output args) ''w'',
                                          Stdout (''Embedding saved to ''
                                                  @ arg_output args)]\<rparr>))))))"
  by (simp add: main_def main_body_def get_embedding_eq log_def Let_def open_write_trace
        write_text_trace confirmation_error_def split: sum.splits option.splits prod.splits)

lemma iterencode_list_floats:
  "iterencode_list fs (map PyFloat xs) = (join '', '' (map fs xs), None)"
  by (induction xs rule: induct_list012) auto

lemma encode_key_embedding:
  "encode_basestring_ascii ''embedding'' = [CHR 0x22] @ ''embedding'' @ [CHR 0x22]"
  by (simp add: encode_basestring_ascii_def json_escape_char_def)

lemma iterencode_float_list:
  "iterencode fs (float_list xs) = (''['' @ join '', '' (map fs xs) @ '']'', None)"
  by (cases "xs = []") (simp_all add: float_list_def iterencode_list_floats)

lemma iterencode_embedding_floats:
  "iterencode fs (PyDict [(''embedding'', float_list xs)]) =
     (''{\"embedding\": ['' @ join '', '' (map fs xs) @ '']}'', None)"
  by (simp add: iterencode_float_list encode_key_embedding)

lemma tolist_vector: "tolist (vector xs) = float_list xs"
  by (simp add: vector_def float_list_def comp_def)

lemma convert_to_list_vector:
  "convert_to_list (Ndarray (vector xs)) = Inr (float_list xs)"
  "convert_to_list (Tensor (TensorData (vector xs))) = Inr (float_list xs)"
  by (simp_all add: convert_to_list_def tolist_vector)

lemma script_parsed:
  assumes "has_sentence_transformers env \<and> has_torch env \<and> has_numpy env"
      and "parse_args argv = Namespace args"
  shows "script env argv s = main env args s"
  using assms by (simp add: script_def)

lemma nodes_write_text_open:
  assumes "open_write env p s = Inr s4"
  shows "\<exists>r w. nodes (write_text p txt s4) = (nodes s)(p \<mapsto> File (utf8_encode txt) r w)"
  using open_write_Inr [OF assms] by (fastforce simp: write_text_def)

lemma stdout_lines_append [simp]: "stdout_lines (a @ b) = stdout_lines a @ stdout_lines b"
  by (simp add: stdout_lines_def)

lemma stderr_lines_append [simp]: "stderr_lines (a @ b) = stderr_lines a @ stderr_lines b"
  by (simp add: stderr_lines_def)

lemma lines_library_calls [simp]:
  "stdout_lines (library_calls env t name) = []"
  "stderr_lines (library_calls env t name) = []"
  by (simp_all add: library_calls_def stdout_lines_def stderr_lines_def split: sum.splits)

lemma stdout_lines_simps [simp]:
  "stdout_lines [] = []"
  "stdout_lines (Stdout l # tr) = l # stdout_lines tr"
  "stdout_lines (Stderr l # tr) = stdout_lines tr"
  "stdout_lines (Open_file p m # tr) = stdout_lines tr"
  "stdout_lines (Load_model n # tr) = stdout_lines tr"
  "stdout_lines (Encode t b # tr) = stdout_lines tr"
  by (simp_all add: stdout_lines_def)

lemma stderr_lines_simps [simp]:
  "stderr_lines [] = []"
  "stderr_lines (Stderr l # tr) = l # stderr_lines tr"
  "stderr_lines (Stdout l # tr) = stderr_lines tr"
  "stderr_lines (Open_file p m # tr) = stderr_lines tr"
  "stderr_lines (Load_model n # tr) = stderr_lines tr"
  "stderr_lines (Encode t b # tr) = stderr_lines tr"
  by (simp_all add: stderr_lines_def)

subsection \<open>The argument parser\<close>

lemma parse_items_missing:
  assumes "(inp = None \<and> \<not> list_ex is_input_option items)
         \<or> (outp = None \<and> \<not> list_ex is_output_option items)"
  shows "(\<exists>msg. parse_items inp outp mdl extras items = SystemExit 2 (Parser_error msg))
       \<or> (parse_items inp outp mdl extras items = SystemExit 0 Parser_help
          \<and> Help_option \<in> set items)"
  using assms
proof (induction items arbitrary: inp outp mdl extras)
  case Nil
  then show ?case by (auto split: option.splits)
next
  case (Cons a items)
  then show ?case by (cases a) auto
qed

text \<open>
  Claim C5, as stated: whenever \<open>--input\<close> or \<open>--output\<close> is missing the process exits
  with a nonzero code. It fails when help is asked for: the command line \<open>--help\<close> has
  neither flag, and the parser prints the help and exits with code 0.
\<close>

theorem missing_flag_exit_code_counterexample:
  "\<not> list_ex is_input_option [Help_option]
   \<and> fst (script sample_env [Help_option] sample_state) = 0"
  by (simp add: script_def sample_env_def parse_args_def)

text \<open>
  Claim C5, amended: when the packages import and \<open>--input\<close> or \<open>--output\<close> is missing,
  the process ends inside the argument parser, which is the only thing that has
  happened since the start: no file has been opened, read or created and no model has
  been loaded. The exit code is 2, with a usage error on the error stream, unless the
  help flag is on the command line and the parser comes to it first: then the help is
  printed and the exit code is 0.
\<close>

theorem missing_flag_exits_in_parser:
  assumes "has_sentence_transformers env \<and> has_torch env \<and> has_numpy env"
      and "\<not> list_ex is_input_option argv \<or> \<not> list_ex is_output_option argv"
  shows "(\<exists>msg. script env argv s = (2, log (Parser_error msg) s))
       \<or> (script env argv s = (0, log Parser_help s) \<and> Help_option \<in> set argv)"
proof -
  from assms(2)
  have "(\<exists>msg. parse_args argv = SystemExit 2 (Parser_error msg))
      \<or> (parse_args argv = SystemExit 0 Parser_help \<and> Help_option \<in> set argv)"
    unfolding parse_args_def by (intro parse_items_missing) auto
  with assms(1) show ?thesis
    by (auto simp: script_def)
qed

theorem missing_flag_exits_in_parser_witness:
  "has_sentence_transformers sample_env \<and> has_torch sample_env \<and> has_numpy sample_env
   \<and> \<not> list_ex is_input_option [Output_option ''out.json'']
   \<and> script sample_env [Output_option ''out.json''] sample_state =
       (2, log (Parser_error ''the following arguments are required: --input'') sample_state)"
  using missing_flag_exits_in_parser [of sample_env "[Output_option ''out.json'']" sample_state]
  by (simp add: sample_env_def script_def parse_args_def)

subsection \<open>The import guard\<close>

text \<open>
  Claim C10: when one of \<open>sentence_transformers\<close>, \<open>torch\<close> and \<open>numpy\<close> does not import,
  the process prints the two lines of installation instructions on standard output and
  exits with code 1. Nothing else happens, whatever the command line: nothing goes to
  the error stream, the parser is not run, no file is opened and the files are as they
  were.
\<close>

theorem import_guard_exits_first:
  assumes "\<not> (has_sentence_transformers env \<and> has_torch env \<and> has_numpy env)"
  shows "script env argv s =
           (1, s\<lparr>trace := trace s @
                   [Stdout ''Required packages not found. Please install them with:'',
                    Stdout ''pip install sentence-transformers torch numpy'']\<rparr>)"
  using assms by (simp add: script_def log_def)

theorem import_guard_exits_first_witness:
  "\<not> has_torch env_without_torch
   \<and> script env_without_torch [Input_option ''in.txt'', Output_option ''out.json''] sample_state =
       (1, sample_state\<lparr>trace := trace sample_state @
                   [Stdout ''Required packages not found. Please install them with:'',
                    Stdout ''pip install sentence-transformers torch numpy'']\<rparr>)"
  using import_guard_exits_first
          [of env_without_torch "[Input_option ''in.txt'', Output_option ''out.json'']" sample_state]
  by (simp add: env_without_torch_def sample_env_def)

subsection \<open>The output file\<close>

lemma main_success:
  assumes m: "main env args s = (0, s')"
  shows "\<exists>t e v c r w.
           read_text s (arg_input args) = Inr t
         \<and> model_output env t (arg_model args) = Inr e
         \<and> convert_to_list e = Inr v
         \<and> json_dumps (floatstr env) (PyDict [(''embedding'', v)]) = Inr c
         \<and> nodes s' = (nodes s)(arg_output args \<mapsto> File (utf8_encode c) r w)
         \<and> (\<forall>xs. e = Ndarray (vector xs) \<or> e = Tensor (TensorData (vector xs)) \<longrightarrow>
               v = float_list xs
             \<and> c = ''{\"embedding\": ['' @ join '', '' (map (floatstr env) xs) @ '']}'')"
proof -
  from m obtain tx where rd: "read_text s (arg_input args) = Inr tx"
    by (auto simp: main_eq split: sum.splits)
  from m rd obtain v where v: "computed env tx (arg_model args) = Inr v"
    by (auto simp: main_eq split: sum.splits)
  then obtain e where e: "model_output env tx (arg_model args) = Inr e"
    and ev: "convert_to_list e = Inr v"
    by (auto simp: computed_def split: sum.splits)
  from m rd v obtain s4 where s4: "open_write env (arg_output args) s = Inr s4"
    by (auto simp: main_eq split: sum.splits)
  from m rd v s4 obtain c where
    c: "iterencode (floatstr env) (PyDict [(''embedding'', v)]) = (c, None)"
    and s': "s' = (write_text (arg_output args) c s4)
               \<lparr>trace := trace s @ [Open_file (arg_input args) ''r'']
                  @ library_calls env tx (arg_model args)
                  @ [Open_file (arg_output args) ''w'',
                     Stdout (''Embedding saved to '' @ arg_output args)]\<rparr>"
    by (auto simp: main_eq split: sum.splits prod.splits option.splits)
  from nodes_write_text_open [OF s4] obtain r w where
    n: "nodes (write_text (arg_output args) c s4)
          = (nodes s)(arg_output args \<mapsto> File (utf8_encode c) r w)"
    by blast
  have d: "json_dumps (floatstr env) (PyDict [(''embedding'', v)]) = Inr c"
    using c by (simp add: json_dumps_def)
  have vec: "\<forall>xs. e = Ndarray (vector xs) \<or> e = Tensor (TensorData (vector xs)) \<longrightarrow>
               v = float_list xs
             \<and> c = ''{\"embedding\": ['' @ join '', '' (map (floatstr env) xs) @ '']}''"
  proof (intro allI impI)
    fix xs assume "e = Ndarray (vector xs) \<or> e = Tensor (TensorData (vector xs))"
    with ev have "v = float_list xs"
      by (auto simp: convert_to_list_vector)
    with c show "v = float_list xs
             \<and> c = ''{\"embedding\": ['' @ join '', '' (map (floatstr env) xs) @ '']}''"
      by (simp add: iterencode_embedding_floats del: iterencode.simps)
  qed
  from rd e ev d n s' vec show ?thesis
    by (intro exI [of _ tx] exI [of _ e] exI [of _ v] exI [of _ c] exI [of _ r] exI [of _ w])
       simp
qed

lemma sample_run:
  "script sample_env sample_argv sample_state =
     (0, \<lparr>nodes = [''in.txt'' \<mapsto> File ''hi'' True True,
                   ''out.json'' \<mapsto> File ''{\"embedding\": [0.6, 0.8]}'' True True],
          trace = [Open_file ''in.txt'' ''r'', Load_model ''jinaai/jina-embeddings-v3'',
                   Encode [104, 105] True, Open_file ''out.json'' ''w'',
                   Stdout ''Embedding saved to out.json'']\<rparr>)"
  by (simp add: script_def sample_env_def sample_argv_def sample_state_def parse_args_def
        main_def main_body_def Let_def log_def read_text_def open_read_def utf8_decode_def
        utf8_decode_at.simps prepend_def get_embedding_def get_embedding_body_def convert_to_list_def vector_def
        open_write_def write_text_def sample_floatstr_def encode_basestring_ascii_def
        json_escape_char_def utf8_encode_def utf8_encode_char_def)

text \<open>
  Claim C1: when an invocation succeeds (the arguments parse and the exit code is 0), the
  input was read, the model answered and the answer was converted to \<open>v\<close>; the file at
  the output path then holds exactly the UTF-8 bytes of the JSON text of the object
  \<open>{"embedding": v}\<close>, whatever was there before, and no other path has changed. When
  the model's answer is an embedding vector \<open>xs\<close> (an array or a tensor of one
  dimension), \<open>v\<close> is the list of the same floats in the same order and the text is
  \<open>{"embedding": [x1, x2, ...]}\<close>, each float written by \<open>float.__repr__\<close>.
\<close>

theorem output_file_holds_embedding_json:
  assumes "parse_args argv = Namespace args"
      and "script env argv s = (0, s')"
  shows "\<exists>t e v c r w.
           read_text s (arg_input args) = Inr t
         \<and> model_output env t (arg_model args) = Inr e
         \<and> convert_to_list e = Inr v
         \<and> json_dumps (floatstr env) (PyDict [(''embedding'', v)]) = Inr c
         \<and> nodes s' = (nodes s)(arg_output args \<mapsto> File (utf8_encode c) r w)
         \<and> (\<forall>xs. e = Ndarray (vector xs) \<or> e = Tensor (TensorData (vector xs)) \<longrightarrow>
               v = float_list xs
             \<and> c = ''{\"embedding\": ['' @ join '', '' (map (floatstr env) xs) @ '']}'')"
proof -
  from assms have "has_sentence_transformers env \<and> has_torch env \<and> has_numpy env"
    by (auto simp: script_def split: if_splits)
  with assms have "main env args s = (0, s')"
    by (simp add: script_parsed)
  then show ?thesis
    by (rule main_success)
qed

theorem output_file_holds_embedding_json_witness:
  "parse_args sample_argv = Namespace sample_args
   \<and> fst (script sample_env sample_argv sample_state) = 0
   \<and> nodes (snd (script sample_env sample_argv sample_state)) ''out.json''
       = Some (File ''{\"embedding\": [0.6, 0.8]}'' True True)"
  using output_file_holds_embedding_json
          [of sample_argv sample_args sample_env sample_state
              "snd (script sample_env sample_argv sample_state)"]
  by (simp add: sample_run) (simp add: parse_args_def sample_argv_def sample_args_def)

subsection \<open>Exit codes and messages\<close>




subsection \<open>The conversion to a list\<close>

text \<open>
  Claim C3: whichever container the model hands the embedding vector \<open>xs\<close> in, an array,
  a tensor, or a plain list of floats already, \<open>get_embedding\<close> returns the plain Python
  list whose items are the floats \<open>xs\<close>: the same number of them, the same values, in
  the same order. It does nothing else on the way: it raises nothing and adds nothing
  to the trace but its two library calls.
\<close>

theorem get_embedding_gives_plain_list:
  assumes "model_output env t name = Inr e"
      and "e = Ndarray (vector xs) \<or> e = Tensor (TensorData (vector xs)) \<or> e = float_list xs"
  shows "get_embedding env t name s
           = (Inr (PyList (map PyFloat xs)), s\<lparr>trace := trace s @ library_calls env t name\<rparr>)
       \<and> is_float_list (PyList (map PyFloat xs))"
proof -
  from assms(2) have "convert_to_list e = Inr (float_list xs)"
    by (auto simp: convert_to_list_vector) (simp add: convert_to_list_def float_list_def)
  with assms(1) show ?thesis
    by (simp add: get_embedding_eq computed_def float_list_def list_all_iff)
qed

theorem get_embedding_gives_plain_list_witness:
  "model_output sample_env [104, 105] ''jinaai/jina-embeddings-v3''
     = Inr (Ndarray (vector [3 / 5, 4 / 5]))
   \<and> fst (get_embedding sample_env [104, 105] ''jinaai/jina-embeddings-v3'' sample_state)
     = Inr (PyList [PyFloat (3 / 5), PyFloat (4 / 5)])"
  using get_embedding_gives_plain_list
          [of sample_env "[104, 105]" "''jinaai/jina-embeddings-v3''"
              "Ndarray (vector [3 / 5, 4 / 5])" "[3 / 5, 4 / 5]" sample_state]
  by (simp add: model_output_def sample_env_def)

subsection \<open>Errors of the model\<close>

text \<open>
  Claim C6: an exception \<open>e\<close> raised while loading the model, encoding the text or
  converting the result is caught inside \<open>get_embedding\<close>, which prints
  \<open>Error generating embedding: \<close> and \<open>str(e)\<close> on the error stream and raises \<open>e\<close>
  again; \<open>main\<close> catches it, prints \<open>Error: \<close> and \<open>str(e)\<close> on the error stream and
  returns 1.
\<close>

theorem model_errors_reported_twice:
  assumes "read_text s (arg_input args) = Inr t"
      and "SentenceTransformer env (arg_model args) = Inl e
         \<or> (\<exists>m. SentenceTransformer env (arg_model args) = Inr m
               \<and> (encode env m t True = Inl e
                  \<or> (\<exists>emb. encode env m t True = Inr emb \<and> convert_to_list emb = Inl e)))"
  shows "get_embedding env t (arg_model args) s0 =
           (Inl e, s0\<lparr>trace := trace s0 @ library_calls env t (arg_model args)
                        @ [Stderr (''Error generating embedding: '' @ exn_str e)]\<rparr>)
       \<and> main env args s =
           (1, s\<lparr>trace := trace s @ [Open_file (arg_input args) ''r'']
                    @ library_calls env t (arg_model args)
                    @ [Stderr (''Error generating embedding: '' @ exn_str e),
                       Stderr (''Error: '' @ exn_str e)]\<rparr>)"
proof -
  from assms(2) have "computed env t (arg_model args) = Inl e"
    by (auto simp: computed_def model_output_def)
  with assms(1) show ?thesis
    by (simp add: get_embedding_eq main_eq)
qed

theorem model_errors_reported_twice_witness:
  "read_text sample_state (arg_input sample_args) = Inr [104, 105]
   \<and> SentenceTransformer env_load_fails (arg_model sample_args)
       = Inl (Exn ''OSError'' ''no such model'')
   \<and> main env_load_fails sample_args sample_state =
       (1, sample_state\<lparr>trace :=
             [Open_file ''in.txt'' ''r'', Load_model ''jinaai/jina-embeddings-v3'',
              Stderr ''Error generating embedding: no such model'',
              Stderr ''Error: no such model'']\<rparr>)"
  using model_errors_reported_twice
          [of sample_state sample_args "[104, 105]" env_load_fails
              "Exn ''OSError'' ''no such model''" sample_state]
  by (simp add: sample_state_def sample_args_def read_text_def open_read_def utf8_decode_def
        utf8_decode_at.simps prepend_def env_load_fails_def sample_env_def library_calls_def)

subsection \<open>The output path on failure\<close>

text \<open>
  Claim C9: when reading the input fails, or loading the model or computing the
  embedding fails, \<open>main\<close> returns 1 having opened no file for writing, and the files
  are as they were. And in any run, a file opened for writing is the output path,
  opened after the input was read and \<open>get_embedding\<close> had returned a value.
\<close>

theorem output_untouched_by_early_failure:
  shows "(read_text s (arg_input args) = Inl e
          \<or> (\<exists>t. read_text s (arg_input args) = Inr t
                 \<and> computed env t (arg_model args) = Inl e) \<longrightarrow>
            (\<exists>tr. main env args s = (1, s\<lparr>trace := trace s @ tr\<rparr>)
                 \<and> (\<forall>p. Open_file p ''w'' \<notin> set tr)))
       \<and> (main env args s = (code, s') \<and> trace s' = trace s @ tr'
            \<and> Open_file p ''w'' \<in> set tr' \<longrightarrow>
            (\<exists>t v rest. read_text s (arg_input args) = Inr t
               \<and> computed env t (arg_model args) = Inr v
               \<and> p = arg_output args
               \<and> tr' = [Open_file (arg_input args) ''r''] @ library_calls env t (arg_model args)
                         @ [Open_file (arg_output args) ''w''] @ rest
               \<and> Open_file p ''w'' \<notin> set ([Open_file (arg_input args) ''r'']
                                              @ library_calls env t (arg_model args))))"
proof (intro conjI impI)
  assume "read_text s (arg_input args) = Inl e
          \<or> (\<exists>t. read_text s (arg_input args) = Inr t
                 \<and> computed env t (arg_model args) = Inl e)"
  then show "\<exists>tr. main env args s = (1, s\<lparr>trace := trace s @ tr\<rparr>)
                 \<and> (\<forall>p. Open_file p ''w'' \<notin> set tr)"
    by (auto simp: main_eq library_calls_def split: sum.splits)
next
  assume a: "main env args s = (code, s') \<and> trace s' = trace s @ tr'
            \<and> Open_file p ''w'' \<in> set tr'"
  show "\<exists>t v rest. read_text s (arg_input args) = Inr t
               \<and> computed env t (arg_model args) = Inr v
               \<and> p = arg_output args
               \<and> tr' = [Open_file (arg_input args) ''r''] @ library_calls env t (arg_model args)
                         @ [Open_file (arg_output args) ''w''] @ rest
               \<and> Open_file p ''w'' \<notin> set ([Open_file (arg_input args) ''r'']
                                              @ library_calls env t (arg_model args))"
  proof (cases "read_text s (arg_input args)")
    case (Inl x)
    with a show ?thesis by (auto simp: main_eq)
  next
    case (Inr t)
    note rd = this
    show ?thesis
    proof (cases "computed env t (arg_model args)")
      case (Inl x)
      with a rd show ?thesis
        by (auto simp: main_eq library_calls_def split: sum.splits)
    next
      case (Inr v)
      with a rd show ?thesis
        by (auto simp: main_eq library_calls_def simp del: iterencode.simps
              split: sum.splits prod.splits option.splits)
    qed
  qed
qed

theorem output_untouched_by_early_failure_witness:
  "read_text sample_state (arg_input sample_args) = Inr [104, 105]
   \<and> computed env_load_fails [104, 105] (arg_model sample_args)
       = Inl (Exn ''OSError'' ''no such model'')
   \<and> fst (main env_load_fails sample_args sample_state) = 1
   \<and> nodes (snd (main env_load_fails sample_args sample_state)) = nodes sample_state"
proof -
  have rd: "read_text sample_state (arg_input sample_args) = Inr [104, 105]"
    by (simp add: sample_state_def sample_args_def read_text_def open_read_def utf8_decode_def
          utf8_decode_at.simps prepend_def)
  have c: "computed env_load_fails [104, 105] (arg_model sample_args)
             = Inl (Exn ''OSError'' ''no such model'')"
    by (simp add: env_load_fails_def sample_env_def computed_def model_output_def)
  from rd c
    output_untouched_by_early_failure
      [where s = sample_state and args = sample_args and env = env_load_fails
         and e = "Exn ''OSError'' ''no such model''", THEN conjunct1]
  obtain tr where
    "main env_load_fails sample_args sample_state
       = (1, sample_state\<lparr>trace := trace sample_state @ tr\<rparr>)"
    by blast
  with rd c show ?thesis
    by simp
qed

subsection \<open>The decoder against the definition of UTF-8\<close>




























subsection \<open>Reading the input\<close>

lemma exn_class_UnicodeDecodeError [simp]:
  "exn_class (UnicodeDecodeError bs a b r) = ''UnicodeDecodeError''"
  by (simp add: UnicodeDecodeError_def)





lemma encode_in_library_calls:
  "SentenceTransformer env name = Inr m \<Longrightarrow> Encode t True \<in> set (library_calls env t name)"
  by (simp add: library_calls_def)







subsection \<open>Normalisation\<close>

lemma parse_items_event:
  "parse_items inp outp mdl extras items = SystemExit c ev \<Longrightarrow>
     ev = Parser_help \<or> (\<exists>msg. ev = Parser_error msg)"
proof (induction items arbitrary: inp outp mdl extras)
  case Nil
  then show ?case by (auto split: option.splits if_splits)
next
  case (Cons a items)
  then show ?case by (cases a) auto
qed

lemma main_trace_encode:
  "\<exists>tr. trace (snd (main env args s)) = trace s @ tr \<and> (\<forall>t b. Encode t b \<in> set tr \<longrightarrow> b)"
  by (auto simp: main_eq library_calls_def simp del: iterencode.simps
        split: sum.splits prod.splits option.splits)

lemma script_trace_encode:
  "\<exists>tr. trace (snd (script env argv s)) = trace s @ tr \<and> (\<forall>t b. Encode t b \<in> set tr \<longrightarrow> b)"
proof (cases "has_sentence_transformers env \<and> has_torch env \<and> has_numpy env")
  case False
  then show ?thesis by (auto simp: script_def log_def)
next
  case True
  show ?thesis
  proof (cases "parse_args argv")
    case (Namespace args)
    with True show ?thesis
      using main_trace_encode [of env args s] by (simp add: script_def)
  next
    case (SystemExit c ev)
    then have "ev = Parser_help \<or> (\<exists>msg. ev = Parser_error msg)"
      unfolding parse_args_def by (rule parse_items_event)
    with True SystemExit show ?thesis
      by (auto simp: script_def log_def)
  qed
qed

text \<open>
  Claim C7: in every run of the script, each call of \<open>encode\<close> it makes has
  \<open>normalize_embeddings=True\<close>. So when the model keeps its contract (what \<open>encode\<close>
  returns on such a call is an embedding vector whose Euclidean norm is 1 within the
  tolerance \<open>eps\<close>, \<open>val\<close> giving the real number a float stands for) and the run
  succeeds, the output file holds \<open>{"embedding": [x1, x2, ...]}\<close> for a vector of norm
  1 within \<open>eps\<close>: the floats are written as the model gave them.
\<close>

theorem encode_is_asked_for_unit_length:
  shows "(\<exists>tr. trace (snd (script env argv s)) = trace s @ tr
              \<and> (\<forall>t b. Encode t b \<in> set tr \<longrightarrow> b))
       \<and> ((\<forall>m t e. encode env m t True = Inr e \<longrightarrow>
               (\<exists>xs. (e = Ndarray (vector xs) \<or> e = Tensor (TensorData (vector xs)))
                     \<and> unit_length val eps xs))
           \<and> parse_args argv = Namespace args \<and> script env argv s = (0, s') \<longrightarrow>
           (\<exists>xs r w. unit_length val eps xs
              \<and> nodes s' (arg_output args) =
                  Some (File (utf8_encode (''{\"embedding\": [''
                                           @ join '', '' (map (floatstr env) xs) @ '']}'')) r w)))"
proof (intro conjI impI)
  show "\<exists>tr. trace (snd (script env argv s)) = trace s @ tr
              \<and> (\<forall>t b. Encode t b \<in> set tr \<longrightarrow> b)"
    by (rule script_trace_encode)
next
  assume a: "(\<forall>m t e. encode env m t True = Inr e \<longrightarrow>
               (\<exists>xs. (e = Ndarray (vector xs) \<or> e = Tensor (TensorData (vector xs)))
                     \<and> unit_length val eps xs))
           \<and> parse_args argv = Namespace args \<and> script env argv s = (0, s')"
  then have "has_sentence_transformers env \<and> has_torch env \<and> has_numpy env"
    by (auto simp: script_def split: if_splits)
  moreover from a have "parse_args argv = Namespace args" and "script env argv s = (0, s')"
    by simp_all
  ultimately have "main env args s = (0, s')"
    by (simp add: script_parsed)
  from main_success [OF this] obtain t e v c r w where
    e: "model_output env t (arg_model args) = Inr e"
    and n: "nodes s' = (nodes s)(arg_output args \<mapsto> File (utf8_encode c) r w)"
    and vec: "\<forall>xs. e = Ndarray (vector xs) \<or> e = Tensor (TensorData (vector xs)) \<longrightarrow>
               v = float_list xs
             \<and> c = ''{\"embedding\": ['' @ join '', '' (map (floatstr env) xs) @ '']}''"
    by blast
  from e obtain m where "encode env m t True = Inr e"
    by (auto simp: model_output_def split: sum.splits)
  with a obtain xs where
    xs: "e = Ndarray (vector xs) \<or> e = Tensor (TensorData (vector xs))"
    and u: "unit_length val eps xs"
    by blast
  from vec xs have "c = ''{\"embedding\": ['' @ join '', '' (map (floatstr env) xs) @ '']}''"
    by blast
  with n u show "\<exists>xs r w. unit_length val eps xs
              \<and> nodes s' (arg_output args) =
                  Some (File (utf8_encode (''{\"embedding\": [''
                                           @ join '', '' (map (floatstr env) xs) @ '']}'')) r w)"
    by auto
qed

lemma sample_unit_length: "unit_length (\<lambda>x. x) (1 / 100000) [3 / 5, 4 / 5 :: real]"
  by (simp add: unit_length_def l2_norm_def)


theorem encode_is_asked_for_unit_length_witness:
  "parse_args sample_argv = Namespace sample_args
   \<and> script sample_env sample_argv sample_state
       = (0, snd (script sample_env sample_argv sample_state))
   \<and> unit_length (\<lambda>x. x) (1 / 100000) [3 / 5, 4 / 5 :: real]
   \<and> Encode [104, 105] True \<in> set (trace (snd (script sample_env sample_argv sample_state)))
   \<and> nodes (snd (script sample_env sample_argv sample_state)) ''out.json''
       = Some (File ''{\"embedding\": [0.6, 0.8]}'' True True)"
  using encode_is_asked_for_unit_length
          [where env = sample_env and argv = sample_argv and s = sample_state
             and args = sample_args and val = "\<lambda>x. x" and eps = "1 / 100000"
             and s' = "snd (script sample_env sample_argv sample_state)"]
        sample_unit_length
  by (simp add: sample_run) (simp add: parse_args_def sample_argv_def sample_args_def)

subsection \<open>Determinism\<close>

lemma read_text_file:
  "nodes s p = Some (File c r w) \<Longrightarrow> read_text s p = Inr t \<Longrightarrow>
     r \<and> (case utf8_decode c of Inl e \<Rightarrow> False | Inr cs \<Rightarrow> t = universal_newlines cs)"
  by (auto simp: read_text_def open_read_def split: if_splits sum.splits)

lemma second_run:
  "script sample_env second_argv second_state =
     (0, \<lparr>nodes = [''copy.txt'' \<mapsto> File ''hi'' True False,
                   ''second.json'' \<mapsto> File ''{\"embedding\": [0.6, 0.8]}'' True True],
          trace = [Stdout ''earlier'', Open_file ''copy.txt'' ''r'',
                   Load_model ''jinaai/jina-embeddings-v3'',
                   Encode [104, 105] True, Open_file ''second.json'' ''w'',
                   Stdout ''Embedding saved to second.json'']\<rparr>)"
  by (simp add: script_def sample_env_def second_argv_def second_state_def parse_args_def
        main_def main_body_def Let_def log_def read_text_def open_read_def utf8_decode_def
        utf8_decode_at.simps prepend_def get_embedding_def get_embedding_body_def
        convert_to_list_def vector_def
        open_write_def write_text_def sample_floatstr_def encode_basestring_ascii_def
        json_escape_char_def utf8_encode_def utf8_encode_char_def)

text \<open>
  Claim C8: the model library being a function of the model name and the text, two
  successful invocations on the same machine whose input files have the same bytes and
  whose model names are equal leave the same bytes in their output files, whatever else
  differs between them (paths, permissions, other files, what was printed before).
\<close>

theorem same_input_same_json:
  assumes "parse_args argv1 = Namespace args1" and "parse_args argv2 = Namespace args2"
      and "script env argv1 s1 = (0, s1')" and "script env argv2 s2 = (0, s2')"
      and "arg_model args1 = arg_model args2"
      and "nodes s1 (arg_input args1) = Some (File c r1 w1)"
      and "nodes s2 (arg_input args2) = Some (File c r2 w2)"
  shows "\<exists>j ra wa rb wb.
           nodes s1' (arg_output args1) = Some (File j ra wa)
         \<and> nodes s2' (arg_output args2) = Some (File j rb wb)"
proof -
  from assms(1,3) have ok: "has_sentence_transformers env \<and> has_torch env \<and> has_numpy env"
    by (auto simp: script_def split: if_splits)
  from ok assms(1,3) have m1: "main env args1 s1 = (0, s1')"
    by (simp add: script_parsed)
  from ok assms(2,4) have m2: "main env args2 s2 = (0, s2')"
    by (simp add: script_parsed)
  from main_success [OF m1] obtain t1 e1 v1 j1 ra wa where
    a1: "read_text s1 (arg_input args1) = Inr t1"
        "model_output env t1 (arg_model args1) = Inr e1"
        "convert_to_list e1 = Inr v1"
        "json_dumps (floatstr env) (PyDict [(''embedding'', v1)]) = Inr j1"
        "nodes s1' = (nodes s1)(arg_output args1 \<mapsto> File (utf8_encode j1) ra wa)"
    by blast
  from main_success [OF m2] obtain t2 e2 v2 j2 rb wb where
    a2: "read_text s2 (arg_input args2) = Inr t2"
        "model_output env t2 (arg_model args2) = Inr e2"
        "convert_to_list e2 = Inr v2"
        "json_dumps (floatstr env) (PyDict [(''embedding'', v2)]) = Inr j2"
        "nodes s2' = (nodes s2)(arg_output args2 \<mapsto> File (utf8_encode j2) rb wb)"
    by blast
  from read_text_file [OF assms(6) a1(1)] read_text_file [OF assms(7) a2(1)]
  have "t1 = t2"
    by (auto split: sum.splits)
  with a1(2) a2(2) assms(5) have "e1 = e2" by simp
  with a1(3) a2(3) have "v1 = v2" by simp
  with a1(4) a2(4) have "j1 = j2" by simp
  with a1(5) a2(5) show ?thesis by simp
qed

theorem same_input_same_json_witness:
  "parse_args sample_argv = Namespace sample_args
   \<and> parse_args second_argv = Namespace second_args
   \<and> fst (script sample_env sample_argv sample_state) = 0
   \<and> fst (script sample_env second_argv second_state) = 0
   \<and> arg_model sample_args = arg_model second_args
   \<and> nodes sample_state (arg_input sample_args) = Some (File ''hi'' True True)
   \<and> nodes second_state (arg_input second_args) = Some (File ''hi'' True False)
   \<and> nodes (snd (script sample_env sample_argv sample_state)) (arg_output sample_args)
       = Some (File ''{\"embedding\": [0.6, 0.8]}'' True True)
   \<and> nodes (snd (script sample_env second_argv second_state)) (arg_output second_args)
       = Some (File ''{\"embedding\": [0.6, 0.8]}'' True True)"
  using same_input_same_json
          [of sample_argv sample_args second_argv second_args sample_env sample_state
              "snd (script sample_env sample_argv sample_state)" second_state
              "snd (script sample_env second_argv second_state)" "''hi''" True True True False]
  by (simp add: sample_run second_run)
     (simp add: parse_args_def sample_argv_def sample_args_def second_argv_def second_args_def
        sample_state_def second_state_def)

end
